theory Spec2Isabelle
  imports
    Complex_Main
    "HOL-Library.Multiset"
    "HOL-Library.Char_ord"
    "HOL-Library.List_Lexorder"
begin

section \<open>The retrieval index of \<^verbatim>\<open>rag_index.py\<close>\<close>

text \<open>
  The class \<^verbatim>\<open>RAGIndex\<close> loads records from a JSON file, turns each into one text
  document, fits a TF-IDF vectoriser on the documents and answers a query with the
  documents of greatest cosine similarity.

  Python strings are modelled as \<^typ>\<open>string\<close>, one \<^typ>\<open>char\<close> per code point, so the
  model covers the code points below 256. The weights are \<^typ>\<open>real\<close> numbers: the
  arithmetic of the vectoriser is exact here, where Python computes in 64-bit floats.
\<close>

subsection \<open>Python values and errors\<close>

text \<open>
  What \<^verbatim>\<open>json.load\<close> returns. An object is the list of its items in insertion order,
  with distinct keys. A float is carried as the text Python prints for it.
\<close>

datatype json =
    JNull
  | JBool bool
  | JInt int
  | JFloat string
  | JStr string
  | JArr "json list"
  | JObj "(string \<times> json) list"

text \<open>The exceptions that can leave \<^verbatim>\<open>setup\<close> and \<^verbatim>\<open>query\<close>.\<close>

datatype error =
    FileNotFoundError
  | JSONDecodeError
  | AttributeError
  | ValueError string
  | NotFittedError
  | ZeroDivisionError
  | IndexError

text \<open>\<^verbatim>\<open>sep.join(xs)\<close>\<close>

fun join :: "string \<Rightarrow> string list \<Rightarrow> string" where
  "join sep [] = []"
| "join sep [x] = x"
| "join sep (x # y # ys) = x @ sep @ join sep (y # ys)"

definition hex_digit :: "nat \<Rightarrow> char" where
  "hex_digit n = ''0123456789abcdef'' ! n"

fun digits :: "nat \<Rightarrow> string" where
  "digits n = (if n < 10 then [hex_digit n] else digits (n div 10) @ [hex_digit (n mod 10)])"

definition str_int :: "int \<Rightarrow> string" where
  "str_int i = (if i < 0 then CHR ''-'' # digits (nat (- i)) else digits (nat i))"

text \<open>\<^verbatim>\<open>str.isprintable\<close> on one code point below 256.\<close>

definition printable :: "char \<Rightarrow> bool" where
  "printable c =
     (let n = (of_char c :: nat)
      in \<not> (n < 0x20 \<or> n = 0x7F \<or> (0x80 \<le> n \<and> n \<le> 0xA0) \<or> n = 0xAD))"

definition escape :: "char \<Rightarrow> char \<Rightarrow> string" where
  "escape quote c =
     (if c = quote \<or> c = CHR 0x5C then [CHR 0x5C, c]
      else if c = CHR 0x09 then [CHR 0x5C, CHR ''t'']
      else if c = CHR 0x0A then [CHR 0x5C, CHR ''n'']
      else if c = CHR 0x0D then [CHR 0x5C, CHR ''r'']
      else if \<not> printable c then
        [CHR 0x5C, CHR ''x'', hex_digit (of_char c div 16), hex_digit (of_char c mod 16)]
      else [c])"

text \<open>
  \<^verbatim>\<open>repr\<close> of a string: in single quotes, or in double quotes when the string has a
  single quote and no double quote.
\<close>

definition repr_str :: "string \<Rightarrow> string" where
  "repr_str s =
     (let quote = (if CHR 0x27 \<in> set s \<and> CHR 0x22 \<notin> set s then CHR 0x22 else CHR 0x27)
      in quote # concat (map (escape quote) s) @ [quote])"

fun py_repr :: "json \<Rightarrow> string" where
  "py_repr JNull = ''None''"
| "py_repr (JBool b) = (if b then ''True'' else ''False'')"
| "py_repr (JInt i) = str_int i"
| "py_repr (JFloat s) = s"
| "py_repr (JStr s) = repr_str s"
| "py_repr (JArr xs) = ''['' @ join '', '' (map py_repr xs) @ '']''"
| "py_repr (JObj kvs) =
     ''{'' @ join '', '' (map (\<lambda>kv. repr_str (fst kv) @ '': '' @ py_repr (snd kv)) kvs) @ ''}''"

text \<open>\<^verbatim>\<open>str(v)\<close>: a string is itself, every other value is printed as \<^verbatim>\<open>repr\<close> prints it.\<close>

fun str :: "json \<Rightarrow> string" where
  "str (JStr s) = s"
| "str v = py_repr v"

text \<open>\<^verbatim>\<open>xs[i]\<close> for an index that is not negative.\<close>

definition getitem :: "'a list \<Rightarrow> nat \<Rightarrow> error + 'a" where
  "getitem xs i = (if i < length xs then Inr (xs ! i) else Inl IndexError)"

text \<open>\<^verbatim>\<open>xs[:n]\<close>: a negative \<^verbatim>\<open>n\<close> counts from the end.\<close>

definition slice_to :: "int \<Rightarrow> 'a list \<Rightarrow> 'a list" where
  "slice_to n xs = (if 0 \<le> n then take (nat n) xs else take (length xs - nat (- n)) xs)"

text \<open>Running a list of computations, stopping at the first that raises.\<close>

fun collect :: "(error + 'a) list \<Rightarrow> error + 'a list" where
  "collect [] = Inr []"
| "collect (x # xs) =
     (case x of
        Inl e \<Rightarrow> Inl e
      | Inr v \<Rightarrow> (case collect xs of Inl e \<Rightarrow> Inl e | Inr vs \<Rightarrow> Inr (v # vs)))"

subsection \<open>The library: scikit-learn's \<^verbatim>\<open>TfidfVectorizer\<close> with its default parameters\<close>

text \<open>\<^verbatim>\<open>str.lower\<close> on one code point below 256.\<close>

definition lower :: "char \<Rightarrow> char" where
  "lower c =
     (let n = (of_char c :: nat)
      in if (0x41 \<le> n \<and> n \<le> 0x5A) \<or> (0xC0 \<le> n \<and> n \<le> 0xDE \<and> n \<noteq> 0xD7)
         then char_of (n + 0x20) else c)"

text \<open>The class \<^verbatim>\<open>\w\<close> of a Unicode pattern: letters, digits, numeric signs, underscore.\<close>

definition word_char :: "char \<Rightarrow> bool" where
  "word_char c =
     (let n = (of_char c :: nat)
      in (0x30 \<le> n \<and> n \<le> 0x39) \<or> (0x41 \<le> n \<and> n \<le> 0x5A) \<or> n = 0x5F
         \<or> (0x61 \<le> n \<and> n \<le> 0x7A)
         \<or> n = 0xAA \<or> n = 0xB2 \<or> n = 0xB3 \<or> n = 0xB5 \<or> n = 0xB9 \<or> n = 0xBA
         \<or> n = 0xBC \<or> n = 0xBD \<or> n = 0xBE
         \<or> (0xC0 \<le> n \<and> n \<noteq> 0xD7 \<and> n \<noteq> 0xF7))"

text \<open>The maximal runs of word characters, \<open>cur\<close> being the run read so far.\<close>

fun word_runs :: "string \<Rightarrow> string \<Rightarrow> string list" where
  "word_runs cur [] = [cur]"
| "word_runs cur (c # cs) =
     (if word_char c then word_runs (cur @ [c]) cs else cur # word_runs [] cs)"

text \<open>The token pattern \<^verbatim>\<open>(?u)\b\w\w+\b\<close>: the runs of two word characters or more.\<close>

definition tokenize :: "string \<Rightarrow> string list" where
  "tokenize s = filter (\<lambda>w. 2 \<le> length w) (word_runs [] s)"

definition analyze :: "string \<Rightarrow> string list" where
  "analyze doc = tokenize (map lower doc)"

record tfidf_vectorizer =
  fitted_vocabulary :: "string list option"
  fitted_idf :: "real list option"

definition TfidfVectorizer :: tfidf_vectorizer where
  "TfidfVectorizer = \<lparr>fitted_vocabulary = None, fitted_idf = None\<rparr>"

text \<open>One row of the count matrix: the number of occurrences of each vocabulary term.\<close>

definition count_row :: "string list \<Rightarrow> string list \<Rightarrow> nat list" where
  "count_row vocab tokens = map (\<lambda>t. count_list tokens t) vocab"

text \<open>The number of rows in which column \<open>j\<close> is not zero.\<close>

definition document_frequency :: "nat list list \<Rightarrow> nat \<Rightarrow> nat" where
  "document_frequency X j = length (filter (\<lambda>row. row ! j \<noteq> 0) X)"

text \<open>The smoothed inverse document frequency, \<^verbatim>\<open>log((1 + n) / (1 + df)) + 1\<close>.\<close>

definition idf_of :: "nat list list \<Rightarrow> nat \<Rightarrow> real list" where
  "idf_of X n_features =
     map (\<lambda>j. ln ((1 + real (length X)) / (1 + real (document_frequency X j))) + 1)
       [0..<n_features]"

text \<open>Division, with the division by zero as an error of the model.\<close>

definition checked_div :: "real \<Rightarrow> real \<Rightarrow> error + real" where
  "checked_div x y = (if y = 0 then Inl ZeroDivisionError else Inr (x / y))"

text \<open>
  The l2 normalisation of one row, as \<^verbatim>\<open>inplace_csr_row_normalize_l2\<close> does it: a row
  whose sum of squares is zero is skipped, every other row is divided by its norm.
\<close>

definition normalize_row :: "real list \<Rightarrow> error + real list" where
  "normalize_row v =
     (let sum = sum_list (map (\<lambda>x. x * x) v)
      in if sum = 0 then Inr v else collect (map (\<lambda>x. checked_div x (sqrt sum)) v))"

definition normalize :: "real list list \<Rightarrow> error + real list list" where
  "normalize X = collect (map normalize_row X)"

text \<open>\<^verbatim>\<open>TfidfTransformer.transform\<close>: the counts times the idf weights, rows normalised.\<close>

definition tfidf_transform :: "real list \<Rightarrow> nat list list \<Rightarrow> error + real list list" where
  "tfidf_transform idf X =
     (if \<exists>row \<in> set X. length row \<noteq> length idf
      then Inl (ValueError ''X has a different number of features than the fitted idf'')
      else normalize (map (\<lambda>row. map (\<lambda>(c, w). real c * w) (zip row idf)) X))"

text \<open>
  \<^verbatim>\<open>fit_transform\<close>: a new, unfitted transformer replaces the old one first; the
  vocabulary is the sorted set of the tokens of all documents, and an empty one is an
  error; then the idf weights are fitted and the documents transformed. The result is
  the outcome and the vectoriser as the call leaves it.
\<close>

definition fit_transform ::
  "tfidf_vectorizer \<Rightarrow> string list \<Rightarrow> (error + real list list) \<times> tfidf_vectorizer" where
  "fit_transform vec raw_documents =
     (let vec1 = vec\<lparr>fitted_idf := None\<rparr>;
          tokens = map analyze raw_documents;
          vocabulary = sort (remdups (concat tokens))
      in if vocabulary = []
         then (Inl (ValueError ''empty vocabulary; perhaps the documents only contain stop words''),
               vec1)
         else
           let X = map (count_row vocabulary) tokens;
               vec2 = vec1\<lparr>fitted_vocabulary := Some vocabulary\<rparr>;
               idf = idf_of X (length vocabulary);
               vec3 = vec2\<lparr>fitted_idf := Some idf\<rparr>
           in (tfidf_transform idf X, vec3))"

text \<open>\<^verbatim>\<open>transform\<close>: tokens outside the fitted vocabulary are ignored.\<close>

definition transform :: "tfidf_vectorizer \<Rightarrow> string list \<Rightarrow> error + real list list" where
  "transform vec raw_documents =
     (case fitted_vocabulary vec of
        None \<Rightarrow> Inl NotFittedError
      | Some vocabulary \<Rightarrow>
          (let X = map (\<lambda>doc. count_row vocabulary (analyze doc)) raw_documents
           in case fitted_idf vec of
                None \<Rightarrow> Inl NotFittedError
              | Some idf \<Rightarrow> tfidf_transform idf X))"

definition dot :: "real list \<Rightarrow> real list \<Rightarrow> real" where
  "dot a b = sum_list (map (\<lambda>(x, y). x * y) (zip a b))"

text \<open>
  \<^verbatim>\<open>cosine_similarity(X, Y)\<close>: both matrices are normalised by rows and multiplied; the
  result has one row for each row of \<open>X\<close> and one column for each row of \<open>Y\<close>.
\<close>

definition cosine_similarity :: "real list list \<Rightarrow> real list list \<Rightarrow> error + real list list" where
  "cosine_similarity X Y =
     (if \<exists>x \<in> set X. \<exists>y \<in> set Y. length x \<noteq> length y
      then Inl (ValueError ''Incompatible dimension for X and Y matrices'')
      else
        (case normalize X of
           Inl e \<Rightarrow> Inl e
         | Inr X_normalized \<Rightarrow>
             (case normalize Y of
                Inl e \<Rightarrow> Inl e
              | Inr Y_normalized \<Rightarrow>
                  Inr (map (\<lambda>x. map (\<lambda>y. dot x y) Y_normalized) X_normalized))))"

subsection \<open>The library: numpy's \<^verbatim>\<open>argsort\<close>\<close>

text \<open>
  The indices that sort the array in ascending order. The default kind of sort is
  modelled by the insertion sort that numpy runs on short arrays, which leaves equal
  elements in the order of their indices.
\<close>

definition argsort :: "real list \<Rightarrow> nat list" where
  "argsort a = sort_key (\<lambda>i. a ! i) [0..<length a]"

subsection \<open>\<^verbatim>\<open>RAGIndex\<close>\<close>

record rag_index =
  json_path :: string
  documents :: "string list"
  vectorizer :: tfidf_vectorizer
  tfidf_matrix :: "real list list option"

definition init :: "string \<Rightarrow> rag_index" where
  "init path =
     \<lparr>json_path = path, documents = [], vectorizer = TfidfVectorizer, tfidf_matrix = None\<rparr>"

text \<open>
  What the file system gives for \<^verbatim>\<open>json_path\<close>: no such file, a file that
  \<^verbatim>\<open>json.load\<close> rejects, or the decoded value.
\<close>

datatype source = Missing | Undecodable | Loaded json

text \<open>\<^verbatim>\<open>d.get(key, "")\<close> on a dictionary.\<close>

definition get :: "(string \<times> json) list \<Rightarrow> string \<Rightarrow> json" where
  "get d key = (case map_of d key of None \<Rightarrow> JStr [] | Some v \<Rightarrow> v)"

text \<open>
  The text of one record (lines 23 to 26 and 29 to 32). Only a dictionary has the
  method \<^verbatim>\<open>get\<close>.
\<close>

fun combined :: "json \<Rightarrow> error + string" where
  "combined (JObj d) =
     (let transcript = get d ''transcript'';
          summary = get d ''summary'';
          notes = get d ''notes''
      in Inr (join '' '' [str transcript, str summary, str notes]))"
| "combined _ = Inl AttributeError"

text \<open>
  The loop of lines 22 to 27 on \<^verbatim>\<open>self.documents\<close>: the outcome and the documents
  appended before a record raised.
\<close>

fun append_records :: "json list \<Rightarrow> string list \<Rightarrow> error option \<times> string list" where
  "append_records [] docs = (None, docs)"
| "append_records (d # ds) docs =
     (case combined d of
        Inl e \<Rightarrow> (Some e, docs)
      | Inr c \<Rightarrow> append_records ds (docs @ [c]))"

text \<open>Lines 20 to 33: the documents are replaced by those of the loaded value.\<close>

definition load_documents :: "rag_index \<Rightarrow> json \<Rightarrow> error option \<times> rag_index" where
  "load_documents self data =
     (case data of
        JArr ds \<Rightarrow>
          (let (r, docs) = append_records ds [] in (r, self\<lparr>documents := docs\<rparr>))
      | _ \<Rightarrow>
          (case combined data of
             Inl e \<Rightarrow> (Some e, self)
           | Inr c \<Rightarrow> (None, self\<lparr>documents := [c]\<rparr>)))"

text \<open>
  Line 35: the vectoriser is fitted on the documents, and the matrix is assigned when
  the fit has returned.
\<close>

definition fit :: "rag_index \<Rightarrow> error option \<times> rag_index" where
  "fit self =
     (case fit_transform (vectorizer self) (documents self) of
        (Inl e, vec) \<Rightarrow> (Some e, self\<lparr>vectorizer := vec\<rparr>)
      | (Inr X, vec) \<Rightarrow> (None, self\<lparr>vectorizer := vec, tfidf_matrix := Some X\<rparr>))"

text \<open>
  The method \<^verbatim>\<open>setup\<close>: the exception raised, if any, and the object as the call
  leaves it.
\<close>

definition rag_setup :: "rag_index \<Rightarrow> source \<Rightarrow> error option \<times> rag_index" where
  "rag_setup self src =
     (case src of
        Missing \<Rightarrow> (Some FileNotFoundError, self)
      | Undecodable \<Rightarrow> (Some JSONDecodeError, self)
      | Loaded data \<Rightarrow>
          (case load_documents self data of
             (Some e, self1) \<Rightarrow> (Some e, self1)
           | (None, self1) \<Rightarrow> fit self1))"

text \<open>Lines 38 to 42: the similarity of the query to each row of the matrix.\<close>

definition similarities :: "rag_index \<Rightarrow> string \<Rightarrow> error + real list" where
  "similarities self query_text =
     (case tfidf_matrix self of
        None \<Rightarrow> Inl (ValueError ''TF-IDF matrix is not initialized. Call setup() first.'')
      | Some X \<Rightarrow>
          (case transform (vectorizer self) [query_text] of
             Inl e \<Rightarrow> Inl e
           | Inr query_vec \<Rightarrow>
               (case cosine_similarity query_vec X of
                  Inl e \<Rightarrow> Inl e
                | Inr K \<Rightarrow> Inr (concat K))))"

text \<open>\<^verbatim>\<open>query(query, top_n)\<close>: the selected documents joined into one string.\<close>

definition query :: "rag_index \<Rightarrow> string \<Rightarrow> int \<Rightarrow> error + string" where
  "query self query_text top_n =
     (case similarities self query_text of
        Inl e \<Rightarrow> Inl e
      | Inr sims \<Rightarrow>
          (let top_indices = slice_to top_n (rev (argsort sims))
           in case collect (map (getitem (documents self)) top_indices) of
                Inl e \<Rightarrow> Inl e
              | Inr top_docs \<Rightarrow> Inr (join [CHR 0x0A, CHR 0x0A] top_docs)))"

text \<open>\<^verbatim>\<open>query(query)\<close>, the call that leaves \<^verbatim>\<open>top_n\<close> to its default.\<close>

definition query_default :: "rag_index \<Rightarrow> string \<Rightarrow> error + string" where
  "query_default self query_text = query self query_text 1"

definition search :: "rag_index \<Rightarrow> string \<Rightarrow> error + string" where
  "search self query_text = query self query_text 3"

subsection \<open>Notions for the statements\<close>

text \<open>The value that \<^const>\<open>normalize_row\<close> returns.\<close>

definition sq_norm :: "real list \<Rightarrow> real" where
  "sq_norm v = sum_list (map (\<lambda>x. x * x) v)"

definition unit_row :: "real list \<Rightarrow> real list" where
  "unit_row v = (if sq_norm v = 0 then v else map (\<lambda>x. x / sqrt (sq_norm v)) v)"

text \<open>The vocabulary, the idf weights and the vectoriser fitted on a list of documents.\<close>

definition vocabulary_of :: "string list \<Rightarrow> string list" where
  "vocabulary_of docs = sort (remdups (concat (map analyze docs)))"

definition weights_of :: "string list \<Rightarrow> real list" where
  "weights_of docs =
     idf_of (map (count_row (vocabulary_of docs)) (map analyze docs))
       (length (vocabulary_of docs))"

definition fitted :: "string list \<Rightarrow> tfidf_vectorizer" where
  "fitted docs =
     \<lparr>fitted_vocabulary = Some (vocabulary_of docs), fitted_idf = Some (weights_of docs)\<rparr>"

text \<open>The TF-IDF vector of a text under the vectoriser fitted on \<open>docs\<close>.\<close>

definition doc_vector :: "string list \<Rightarrow> string \<Rightarrow> real list" where
  "doc_vector docs text =
     unit_row (map (\<lambda>(c, w). real c * w)
       (zip (count_row (vocabulary_of docs) (analyze text)) (weights_of docs)))"

text \<open>
  A built index: the vectoriser and the matrix are those that line 35 computes from
  the documents of the object.
\<close>

definition built :: "rag_index \<Rightarrow> bool" where
  "built self =
     (case tfidf_matrix self of
        None \<Rightarrow> False
      | Some X \<Rightarrow>
          fit_transform (vectorizer self) (documents self) = (Inr X, vectorizer self))"

text \<open>
  Index \<open>i\<close> is ranked before index \<open>j\<close>: its similarity is greater, or equal with
  \<open>i\<close> the later of the two.
\<close>

definition ranked_before :: "real list \<Rightarrow> nat \<Rightarrow> nat \<Rightarrow> bool" where
  "ranked_before sims i j = (sims ! j < sims ! i \<or> (sims ! j = sims ! i \<and> j < i))"

text \<open>The similarities that a built index on \<open>docs\<close> computes for a query.\<close>

definition sims_of :: "string list \<Rightarrow> string \<Rightarrow> real list" where
  "sims_of docs q =
     map (\<lambda>d. dot (unit_row (doc_vector docs q)) (unit_row (doc_vector docs d))) docs"

text \<open>
  Calls of \<^verbatim>\<open>setup\<close> in sequence, each with what the file system gives at that
  time: the outcomes and the object after the last call.
\<close>

fun setups :: "rag_index \<Rightarrow> source list \<Rightarrow> error option list \<times> rag_index" where
  "setups self [] = ([], self)"
| "setups self (src # srcs) =
     (let (r, self1) = rag_setup self src;
          (rs, self2) = setups self1 srcs
      in (r # rs, self2))"


subsection \<open>Example objects\<close>

definition example_records :: json where
  "example_records =
     JArr [JObj [(''transcript'', JStr ''alpha beta'')],
           JObj [(''transcript'', JStr ''beta alpha'')]]"

definition example_index :: rag_index where
  "example_index = snd (rag_setup (init ''data/transcript.json'') (Loaded example_records))"


section \<open>Properties\<close>


subsection \<open>The vectoriser on well-shaped input\<close>

text \<open>
  The normalisation never reaches the division by zero: it returns the pure
  \<^const>\<open>unit_row\<close>. A fit on documents with at least one token succeeds, and its results
  are \<^const>\<open>fitted\<close> and the \<^const>\<open>doc_vector\<close> of each document.
\<close>

lemma collect_map_Inr:
  "(\<And>x. x \<in> set xs \<Longrightarrow> g x = Inr (f x)) \<Longrightarrow> collect (map g xs) = Inr (map f xs)"
  by (induction xs) simp_all

lemma normalize_row_unit: "normalize_row v = Inr (unit_row v)"
proof (cases "sq_norm v = 0")
  case True
  then show ?thesis by (simp add: normalize_row_def unit_row_def sq_norm_def)
next
  case False
  then have "sqrt (sq_norm v) \<noteq> 0" by simp
  then have "collect (map (\<lambda>x. checked_div x (sqrt (sq_norm v))) v)
               = Inr (map (\<lambda>x. x / sqrt (sq_norm v)) v)"
    by (intro collect_map_Inr) (simp add: checked_div_def)
  with False show ?thesis
    by (simp add: normalize_row_def unit_row_def sq_norm_def)
qed

lemma normalize_unit: "normalize X = Inr (map unit_row X)"
  unfolding normalize_def by (intro collect_map_Inr) (rule normalize_row_unit)

lemma length_unit_row: "length (unit_row v) = length v"
  by (simp add: unit_row_def)

lemma tfidf_transform_ok:
  assumes "\<forall>row \<in> set X. length row = length idf"
  shows "tfidf_transform idf X
           = Inr (map (\<lambda>row. unit_row (map (\<lambda>(c, w). real c * w) (zip row idf))) X)"
  using assms by (simp add: tfidf_transform_def normalize_unit)

lemma length_count_row: "length (count_row vocab tokens) = length vocab"
  by (simp add: count_row_def)

lemma length_weights_of: "length (weights_of docs) = length (vocabulary_of docs)"
  by (simp add: weights_of_def idf_of_def)

lemma length_doc_vector: "length (doc_vector docs text) = length (vocabulary_of docs)"
  by (simp add: doc_vector_def length_unit_row length_count_row length_weights_of)

lemma fit_transform_ok:
  assumes "vocabulary_of docs \<noteq> []"
  shows "fit_transform vec docs = (Inr (map (doc_vector docs) docs), fitted docs)"
proof -
  let ?X = "map (count_row (vocabulary_of docs)) (map analyze docs)"
  have "\<forall>row \<in> set ?X. length row = length (weights_of docs)"
    by (auto simp: length_count_row length_weights_of)
  then have "tfidf_transform (weights_of docs) ?X = Inr (map (doc_vector docs) docs)"
    by (simp add: tfidf_transform_ok doc_vector_def comp_def)
  then show ?thesis
    using assms
    by (simp add: fit_transform_def Let_def fitted_def weights_of_def vocabulary_of_def)
qed

lemma fit_transform_empty:
  assumes "vocabulary_of docs = []"
  shows "fit_transform vec docs =
    (Inl (ValueError ''empty vocabulary; perhaps the documents only contain stop words''),
     vec\<lparr>fitted_idf := None\<rparr>)"
  using assms by (simp add: fit_transform_def Let_def vocabulary_of_def[symmetric])

lemma built_iff:
  "built self \<longleftrightarrow>
     vocabulary_of (documents self) \<noteq> [] \<and> vectorizer self = fitted (documents self)
     \<and> tfidf_matrix self = Some (map (doc_vector (documents self)) (documents self))"
proof (cases "vocabulary_of (documents self) = []")
  case True
  then show ?thesis
    by (simp add: built_def fit_transform_empty split: option.splits)
next
  case False
  then show ?thesis
    by (auto simp: built_def fit_transform_ok split: option.splits)
qed

lemma transform_fitted: "transform (fitted docs) [q] = Inr [doc_vector docs q]"
proof -
  have "tfidf_transform (weights_of docs) [count_row (vocabulary_of docs) (analyze q)]
          = Inr [doc_vector docs q]"
    by (simp add: tfidf_transform_ok length_count_row length_weights_of doc_vector_def)
  then show ?thesis by (simp add: transform_def fitted_def)
qed


subsection \<open>The query on a built index\<close>

lemma cosine_similarity_ok:
  assumes "\<forall>y \<in> set Y. length y = length x"
  shows "cosine_similarity [x] Y = Inr [map (\<lambda>y. dot (unit_row x) (unit_row y)) Y]"
  using assms by (simp add: cosine_similarity_def normalize_unit comp_def)

lemma similarities_built:
  assumes "built self"
  shows "similarities self q = Inr (sims_of (documents self) q)"
proof -
  let ?docs = "documents self"
  from assms have vec: "vectorizer self = fitted ?docs"
    and mat: "tfidf_matrix self = Some (map (doc_vector ?docs) ?docs)"
    by (simp_all add: built_iff)
  have "cosine_similarity [doc_vector ?docs q] (map (doc_vector ?docs) ?docs)
          = Inr [map (\<lambda>y. dot (unit_row (doc_vector ?docs q)) (unit_row y))
                  (map (doc_vector ?docs) ?docs)]"
    by (rule cosine_similarity_ok) (simp add: length_doc_vector)
  then show ?thesis
    by (simp add: similarities_def vec mat transform_fitted sims_of_def comp_def)
qed

lemma length_sims_of: "length (sims_of docs q) = length docs"
  by (simp add: sims_of_def)

lemma mset_argsort: "mset (argsort a) = mset [0..<length a]"
  by (simp add: argsort_def)

lemma set_argsort: "set (argsort a) = {..<length a}"
  by (auto simp: argsort_def)

lemma length_argsort: "length (argsort a) = length a"
  by (simp add: argsort_def)

lemma distinct_argsort: "distinct (argsort a)"
  by (simp add: argsort_def)

lemma set_slice_to: "set (slice_to n xs) \<subseteq> set xs"
  by (auto simp: slice_to_def dest: in_set_takeD)

lemma collect_getitem:
  assumes "\<forall>i \<in> set idx. i < length xs"
  shows "collect (map (getitem xs) idx) = Inr (map (\<lambda>i. xs ! i) idx)"
  using assms by (intro collect_map_Inr) (simp add: getitem_def)

lemma query_built:
  assumes "built self"
  shows "query self q top_n =
    Inr (join [CHR 0x0A, CHR 0x0A]
      (map (\<lambda>i. documents self ! i)
        (slice_to top_n (rev (argsort (sims_of (documents self) q))))))"
proof -
  let ?idx = "slice_to top_n (rev (argsort (sims_of (documents self) q)))"
  have "set ?idx \<subseteq> {..<length (documents self)}"
    using set_slice_to[of top_n "rev (argsort (sims_of (documents self) q))"]
    by (simp add: set_argsort length_sims_of)
  then have "collect (map (getitem (documents self)) ?idx)
               = Inr (map (\<lambda>i. documents self ! i) ?idx)"
    by (intro collect_getitem) auto
  then show ?thesis
    by (simp add: query_def similarities_built[OF assms] Let_def)
qed

text \<open>
  The reversed ascending sort is descending, and among equal similarities the greater
  index comes first.
\<close>

lemma insort_key_ranked:
  assumes "sorted_wrt (\<lambda>i j. ranked_before a j i) xs" and "\<forall>y \<in> set xs. x < y"
  shows "sorted_wrt (\<lambda>i j. ranked_before a j i) (insort_key (\<lambda>i. a ! i) x xs)"
  using assms
proof (induction xs)
  case Nil
  then show ?case by simp
next
  case (Cons y ys)
  then show ?case
    by (auto simp: ranked_before_def set_insort_key)
qed

lemma sort_key_ranked:
  assumes "sorted_wrt (<) xs"
  shows "sorted_wrt (\<lambda>i j. ranked_before a j i) (sort_key (\<lambda>i. a ! i) xs)"
  using assms
proof (induction xs)
  case Nil
  then show ?case by simp
next
  case (Cons x xs)
  then show ?case by (auto intro!: insort_key_ranked)
qed

lemma ranked_rev_argsort: "sorted_wrt (ranked_before a) (rev (argsort a))"
proof -
  have "sorted_wrt (\<lambda>i j. ranked_before a j i) (argsort a)"
    unfolding argsort_def by (rule sort_key_ranked) simp
  then show ?thesis by (simp add: sorted_wrt_rev)
qed


subsection \<open>Norms and dot products\<close>

lemma sq_norm_nonneg: "0 \<le> sq_norm v"
  unfolding sq_norm_def by (rule sum_list_nonneg) auto

lemma sq_norm_zero_iff: "sq_norm v = 0 \<longleftrightarrow> (\<forall>x \<in> set v. x = 0)"
  unfolding sq_norm_def by (subst sum_list_nonneg_eq_0_iff) auto

lemma sq_norm_scaled: "sq_norm (map (\<lambda>x. x / c) v) = sq_norm v / (c * c)"
proof -
  have "sq_norm (map (\<lambda>x. x / c) v) = (\<Sum>x\<leftarrow>v. (1 / (c * c)) * (x * x))"
    by (simp add: sq_norm_def comp_def)
  also have "\<dots> = (1 / (c * c)) * sq_norm v"
    unfolding sq_norm_def by (rule sum_list_const_mult)
  finally show ?thesis by simp
qed

lemma sq_norm_unit_row: "sq_norm (unit_row v) = (if sq_norm v = 0 then 0 else 1)"
proof (cases "sq_norm v = 0")
  case True
  then show ?thesis by (simp add: unit_row_def)
next
  case False
  have "sqrt (sq_norm v) * sqrt (sq_norm v) = sq_norm v"
    using sq_norm_nonneg[of v] by simp
  with False show ?thesis
    by (simp add: unit_row_def sq_norm_scaled)
qed

lemma unit_row_idem: "unit_row (unit_row v) = unit_row v"
proof (cases "sq_norm v = 0")
  case True
  then show ?thesis by (simp add: unit_row_def)
next
  case False
  then have "sq_norm (unit_row v) = 1" by (simp add: sq_norm_unit_row)
  then show ?thesis by (simp add: unit_row_def[of "unit_row v"])
qed



lemma dot_zero_left: "sq_norm u = 0 \<Longrightarrow> dot u v = 0"
proof (induction u arbitrary: v)
  case Nil
  then show ?case by (simp add: dot_def)
next
  case (Cons x xs)
  then have "x = 0" and "sq_norm xs = 0" by (simp_all add: sq_norm_zero_iff)
  with Cons.IH show ?case by (cases v) (simp_all add: dot_def)
qed

lemma dot_commute: "dot u v = dot v u"
proof (induction u arbitrary: v)
  case Nil
  then show ?case by (simp add: dot_def)
next
  case (Cons x xs)
  then show ?case by (cases v) (simp_all add: dot_def)
qed

lemma dot_zero_right: "sq_norm v = 0 \<Longrightarrow> dot u v = 0"
  using dot_zero_left[of v u] by (simp add: dot_commute)

lemma cos_doc_vector:
  "dot (unit_row (doc_vector docs q)) (unit_row (doc_vector docs d))
     = dot (doc_vector docs q) (doc_vector docs d)"
  by (simp add: doc_vector_def unit_row_idem)


lemma sims_of_nth:
  "j < length docs \<Longrightarrow>
     sims_of docs q ! j = dot (doc_vector docs q) (doc_vector docs (docs ! j))"
  by (simp add: sims_of_def cos_doc_vector)


lemma count_row_zero:
  assumes "set tokens \<inter> set vocab = {}"
  shows "\<forall>c \<in> set (count_row vocab tokens). c = 0"
  using assms by (auto simp: count_row_def count_list_0_iff)

lemma doc_vector_zero:
  assumes "set (analyze t) \<inter> set (vocabulary_of docs) = {}"
  shows "sq_norm (doc_vector docs t) = 0"
proof -
  let ?row = "map (\<lambda>(c, w). real c * w)
    (zip (count_row (vocabulary_of docs) (analyze t)) (weights_of docs))"
  have "\<forall>x \<in> set ?row. x = 0"
    using count_row_zero[OF assms] by (auto dest: set_zip_leftD)
  then have "sq_norm ?row = 0" by (simp add: sq_norm_zero_iff)
  then show ?thesis by (simp add: doc_vector_def sq_norm_unit_row)
qed

lemma set_vocabulary_of: "set (vocabulary_of docs) = (\<Union>d \<in> set docs. set (analyze d))"
  by (simp add: vocabulary_of_def)

lemma vocabulary_of_empty_iff: "vocabulary_of docs = [] \<longleftrightarrow> (\<forall>d \<in> set docs. analyze d = [])"
  using set_vocabulary_of[of docs] by (metis (no_types, lifting) SUP_bot_conv(2) set_empty) 


subsection \<open>Building\<close>

lemma fit_ok:
  assumes "vocabulary_of (documents self) \<noteq> []"
  shows "fit self = (None, self\<lparr>vectorizer := fitted (documents self),
    tfidf_matrix := Some (map (doc_vector (documents self)) (documents self))\<rparr>)"
  by (simp add: fit_def fit_transform_ok[OF assms])

lemma fit_fail:
  assumes "vocabulary_of (documents self) = []"
  shows "fit self =
    (Some (ValueError ''empty vocabulary; perhaps the documents only contain stop words''),
     self\<lparr>vectorizer := (vectorizer self)\<lparr>fitted_idf := None\<rparr>\<rparr>)"
  by (simp add: fit_def fit_transform_empty[OF assms])

lemma fit_built:
  assumes "fit self = (None, self')"
  shows "built self'" and "documents self' = documents self"
proof -
  have ne: "vocabulary_of (documents self) \<noteq> []"
    using assms by (auto simp: fit_fail)
  from assms show "documents self' = documents self"
    by (auto simp: fit_ok[OF ne])
  from assms show "built self'"
    using ne by (auto simp: fit_ok[OF ne] built_iff)
qed

lemma fit_matrix_kept:
  assumes "fit self = (Some e, self')"
  shows "tfidf_matrix self' = tfidf_matrix self" and "documents self' = documents self"
  using assms
  by (cases "vocabulary_of (documents self) = []"; auto simp: fit_ok fit_fail)+

lemma load_documents_keeps:
  assumes "load_documents self data = (r, self')"
  shows "tfidf_matrix self' = tfidf_matrix self" and "vectorizer self' = vectorizer self"
  using assms
  by (auto simp: load_documents_def split: json.splits sum.splits prod.splits)

lemma setup_built:
  assumes "rag_setup self src = (None, self')"
  shows "built self'"
  using assms
  by (auto simp: rag_setup_def split: source.splits prod.splits option.splits dest: fit_built(1))

lemma setup_failed_matrix:
  assumes "rag_setup self src = (Some e, self')"
  shows "tfidf_matrix self' = tfidf_matrix self"
proof (cases src)
  case Missing
  with assms show ?thesis by (simp add: rag_setup_def)
next
  case Undecodable
  with assms show ?thesis by (simp add: rag_setup_def)
next
  case (Loaded data)
  obtain r self1 where ld: "load_documents self data = (r, self1)"
    by (cases "load_documents self data")
  have kept: "tfidf_matrix self1 = tfidf_matrix self"
    by (rule load_documents_keeps(1)[OF ld])
  show ?thesis
  proof (cases r)
    case None
    with assms Loaded ld have "fit self1 = (Some e, self')"
      by (simp add: rag_setup_def)
    then show ?thesis using kept by (simp add: fit_matrix_kept(1))
  next
    case (Some e')
    with assms Loaded ld have "self' = self1" by (simp add: rag_setup_def)
    then show ?thesis using kept by simp
  qed
qed

subsection \<open>The example index\<close>

lemma analyze_alpha_beta: "analyze ''alpha beta  '' = [''alpha'', ''beta'']"
  by (simp add: analyze_def tokenize_def lower_def word_char_def)

lemma analyze_beta_alpha: "analyze ''beta alpha  '' = [''beta'', ''alpha'']"
  by (simp add: analyze_def tokenize_def lower_def word_char_def)

lemma example_loaded:
  "load_documents (init p) example_records
     = (None, (init p)\<lparr>documents := [''alpha beta  '', ''beta alpha  '']\<rparr>)"
  by (simp add: load_documents_def example_records_def get_def)

lemma example_index_built: "built example_index"
  and example_index_documents: "documents example_index = [''alpha beta  '', ''beta alpha  '']"
proof -
  let ?s = "(init ''data/transcript.json'')\<lparr>documents := [''alpha beta  '', ''beta alpha  '']\<rparr>"
  have ne: "vocabulary_of (documents ?s) \<noteq> []"
    by (simp add: vocabulary_of_empty_iff analyze_alpha_beta)
  have "rag_setup (init ''data/transcript.json'') (Loaded example_records) = fit ?s"
    by (simp add: rag_setup_def example_loaded)
  then have eq: "example_index = snd (fit ?s)"
    by (simp add: example_index_def)
  show "documents example_index = [''alpha beta  '', ''beta alpha  '']"
    by (simp add: eq fit_ok[OF ne])
  show "built example_index"
    using ne by (simp add: eq fit_ok[OF ne] built_iff)
qed


subsection \<open>Queries before a build\<close>

lemma setup_empty:
  "rag_setup self (Loaded (JArr [])) =
     (Some (ValueError ''empty vocabulary; perhaps the documents only contain stop words''),
      self\<lparr>documents := [], vectorizer := (vectorizer self)\<lparr>fitted_idf := None\<rparr>\<rparr>)"
proof -
  have "vocabulary_of (documents (self\<lparr>documents := []\<rparr>)) = []"
    by (simp add: vocabulary_of_def)
  then show ?thesis
    by (simp add: rag_setup_def load_documents_def fit_fail)
qed

lemma setups_unbuilt:
  assumes "setups self srcs = (rs, self')" and "None \<notin> set rs"
    and "tfidf_matrix self = None"
  shows "tfidf_matrix self' = None"
  using assms
proof (induction srcs arbitrary: self rs)
  case Nil
  then show ?case by simp
next
  case (Cons src srcs)
  obtain r self1 where step: "rag_setup self src = (r, self1)"
    by (cases "rag_setup self src")
  obtain rs1 self2 where rest: "setups self1 srcs = (rs1, self2)"
    by (cases "setups self1 srcs")
  from Cons.prems(1) step rest have rs: "rs = r # rs1" and self': "self' = self2"
    by simp_all
  with Cons.prems(2) obtain e where r: "r = Some e" and none: "None \<notin> set rs1"
    by (cases r) auto
  have unbuilt: "tfidf_matrix self1 = None"
    using setup_failed_matrix[of self src e self1] step r Cons.prems(3) by simp
  from rest self' have "setups self1 srcs = (rs1, self')" by simp
  then show ?case using none unbuilt by (rule Cons.IH)
qed

text \<open>
  C9: a query before any successful build fails. Whatever calls of \<^verbatim>\<open>setup\<close> came
  before, if each of them raised, then \<^verbatim>\<open>query\<close> raises the \<^verbatim>\<open>ValueError\<close> of line 39,
  for every query text and every \<^verbatim>\<open>top_n\<close>.
\<close>

theorem query_before_build:
  assumes "setups (init path) srcs = (rs, self)" and "None \<notin> set rs"
  shows "query self q top_n
           = Inl (ValueError ''TF-IDF matrix is not initialized. Call setup() first.'')"
proof -
  have "tfidf_matrix self = None"
    by (rule setups_unbuilt[OF assms]) (simp add: init_def)
  then show ?thesis by (simp add: query_def similarities_def)
qed

theorem query_before_build_witness:
  "setups (init ''data/transcript.json'') [Missing, Loaded (JArr [])]
     = ([Some FileNotFoundError,
         Some (ValueError ''empty vocabulary; perhaps the documents only contain stop words'')],
        (init ''data/transcript.json'')\<lparr>vectorizer := TfidfVectorizer\<lparr>fitted_idf := None\<rparr>\<rparr>)
   \<and> query ((init ''data/transcript.json'')\<lparr>vectorizer := TfidfVectorizer\<lparr>fitted_idf := None\<rparr>\<rparr>)
         ''omega'' 1
       = Inl (ValueError ''TF-IDF matrix is not initialized. Call setup() first.'')"
proof -
  have run: "setups (init ''data/transcript.json'') [Missing, Loaded (JArr [])]
     = ([Some FileNotFoundError,
         Some (ValueError ''empty vocabulary; perhaps the documents only contain stop words'')],
        (init ''data/transcript.json'')\<lparr>vectorizer := TfidfVectorizer\<lparr>fitted_idf := None\<rparr>\<rparr>)"
    by (simp add: setup_empty) (simp add: rag_setup_def init_def)
  show ?thesis
    using run query_before_build[OF run, of "''omega''" 1] by simp
qed

subsection \<open>Delegation\<close>

text \<open>
  C10: \<^verbatim>\<open>search(text)\<close> is \<^verbatim>\<open>query(text, top_n=3)\<close> on every object, and a query that
  leaves \<^verbatim>\<open>top_n\<close> out is the query with \<^verbatim>\<open>top_n = 1\<close>.
\<close>

theorem search_delegates:
  "search self q = query self q 3 \<and> query_default self q = query self q 1"
  by (simp add: search_def query_default_def)

subsection \<open>The whole Corpus, ranked\<close>

lemma mset_map_nth_perm:
  assumes "mset idx = mset [0..<length xs]"
  shows "mset (map (\<lambda>i. xs ! i) idx) = mset xs"
proof -
  have "mset (map (\<lambda>i. xs ! i) idx) = image_mset (\<lambda>i. xs ! i) (mset idx)" by simp
  also have "\<dots> = mset (map (\<lambda>i. xs ! i) [0..<length xs])" by (simp add: assms)
  also have "\<dots> = mset xs" by (simp add: map_nth)
  finally show ?thesis .
qed

text \<open>
  C5: on a built index of \<open>N\<close> documents, a query with \<^verbatim>\<open>top_n > N\<close> returns, joined
  in ranked order, exactly \<open>N\<close> documents, each document of the Corpus once.
\<close>

theorem query_beyond_corpus_size:
  assumes "built self" and "int (length (documents self)) < top_n"
  shows "\<exists>ranked. query self q top_n = Inr (join [CHR 0x0A, CHR 0x0A] ranked)
           \<and> length ranked = length (documents self)
           \<and> mset ranked = mset (documents self)"
proof -
  let ?sims = "sims_of (documents self) q"
  let ?ranked = "map (\<lambda>i. documents self ! i) (rev (argsort ?sims))"
  have "slice_to top_n (rev (argsort ?sims)) = rev (argsort ?sims)"
    using assms(2) by (simp add: slice_to_def length_argsort length_sims_of)
  then have "query self q top_n = Inr (join [CHR 0x0A, CHR 0x0A] ?ranked)"
    by (simp add: query_built[OF assms(1)])
  moreover have "length ?ranked = length (documents self)"
    by (simp add: length_argsort length_sims_of)
  moreover have "mset ?ranked = mset (documents self)"
    by (rule mset_map_nth_perm) (simp add: mset_argsort length_sims_of)
  ultimately show ?thesis by blast
qed

theorem query_beyond_corpus_size_witness:
  "built example_index \<and> int (length (documents example_index)) < 5
   \<and> (\<exists>ranked. query example_index ''alpha'' 5 = Inr (join [CHR 0x0A, CHR 0x0A] ranked)
           \<and> length ranked = length (documents example_index)
           \<and> mset ranked = mset (documents example_index))"
proof -
  have small: "int (length (documents example_index)) < 5"
    by (simp add: example_index_documents)
  show ?thesis
    using example_index_built small
      query_beyond_corpus_size[OF example_index_built small, of "''alpha''"]
    by simp
qed


subsection \<open>The selection of the top documents\<close>

lemma slice_to_take:
  "slice_to n xs = take (if 0 \<le> n then nat n else length xs - nat (- n)) xs"
  by (simp add: slice_to_def)

lemma take_selection:
  assumes "sorted_wrt R xs" and "distinct xs"
  shows "sorted_wrt R (take k xs)" and "distinct (take k xs)"
    and "\<forall>i \<in> set (take k xs). \<forall>j \<in> set xs. j \<notin> set (take k xs) \<longrightarrow> R i j"
proof -
  have split: "xs = take k xs @ drop k xs" by simp
  from assms(1) have parts: "sorted_wrt R (take k xs @ drop k xs)" by simp
  then show "sorted_wrt R (take k xs)" by (simp only: sorted_wrt_append)
  show "distinct (take k xs)" using assms(2) by simp
  show "\<forall>i \<in> set (take k xs). \<forall>j \<in> set xs. j \<notin> set (take k xs) \<longrightarrow> R i j"
  proof (intro ballI impI)
    fix i j
    assume i: "i \<in> set (take k xs)" and j: "j \<in> set xs" and out: "j \<notin> set (take k xs)"
    from j out have "j \<in> set (drop k xs)"
      using split by (metis Un_iff set_append)
    with i parts show "R i j" unfolding sorted_wrt_append by blast
  qed
qed

lemma top_indices_selection:
  fixes a :: "real list" and top_n :: int
  defines "idx \<equiv> slice_to top_n (rev (argsort a))"
  shows "sorted_wrt (ranked_before a) idx" and "distinct idx"
    and "\<forall>i \<in> set idx. i < length a"
    and "\<forall>i \<in> set idx. \<forall>j < length a. j \<notin> set idx \<longrightarrow> ranked_before a i j"
    and "length idx = (if 0 \<le> top_n then min (nat top_n) (length a) else length a - nat (- top_n))"
proof -
  let ?L = "rev (argsort a)"
  let ?k = "if 0 \<le> top_n then nat top_n else length ?L - nat (- top_n)"
  have idx: "idx = take ?k ?L" unfolding idx_def by (rule slice_to_take)
  have sorted: "sorted_wrt (ranked_before a) ?L" by (rule ranked_rev_argsort)
  have dist: "distinct ?L" by (simp add: distinct_argsort)
  have setL: "set ?L = {..<length a}" by (simp add: set_argsort)
  show "sorted_wrt (ranked_before a) idx" unfolding idx by (rule take_selection(1)[OF sorted dist])
  show "distinct idx" unfolding idx by (rule take_selection(2)[OF sorted dist])
  show "\<forall>i \<in> set idx. i < length a"
    using setL set_take_subset[of ?k ?L] unfolding idx by blast
  show "\<forall>i \<in> set idx. \<forall>j < length a. j \<notin> set idx \<longrightarrow> ranked_before a i j"
    using take_selection(3)[OF sorted dist, of ?k] setL unfolding idx by blast
  show "length idx = (if 0 \<le> top_n then min (nat top_n) (length a) else length a - nat (- top_n))"
    unfolding idx by (cases "0 \<le> top_n") (simp_all add: length_argsort)
qed

lemma sims_of_zero:
  assumes "sq_norm (doc_vector docs q) = 0"
  shows "sims_of docs q = map (\<lambda>d. 0) docs"
  using assms by (simp add: sims_of_def unit_row_def dot_zero_left)

lemma argsort_two: "argsort [c, c] = [0, 1]"
  by (simp add: argsort_def)

lemma analyze_omega: "analyze ''omega'' = [''omega'']"
  by (simp add: analyze_def tokenize_def lower_def word_char_def)

lemma example_sims_omega: "sims_of (documents example_index) ''omega'' = [0, 0]"
proof -
  have "set (analyze ''omega'') \<inter> set (vocabulary_of (documents example_index)) = {}"
    by (simp add: set_vocabulary_of example_index_documents analyze_omega
        analyze_alpha_beta analyze_beta_alpha)
  then have "sq_norm (doc_vector (documents example_index) ''omega'') = 0"
    by (rule doc_vector_zero)
  then show ?thesis
    by (simp add: sims_of_zero) (simp add: example_index_documents)
qed

lemma example_query_omega:
  "query example_index ''omega'' top_n =
     Inr (join [CHR 0x0A, CHR 0x0A]
       (map (\<lambda>i. [''alpha beta  '', ''beta alpha  ''] ! i) (slice_to top_n [1, 0])))"
proof -
  have "query example_index ''omega'' top_n =
     Inr (join [CHR 0x0A, CHR 0x0A]
       (map (\<lambda>i. documents example_index ! i) (slice_to top_n (rev (argsort [0, 0])))))"
    by (simp only: query_built[OF example_index_built] example_sims_omega)
  then show ?thesis
    by (simp add: argsort_two example_index_documents)
qed

text \<open>
  C2, as amended: a query with \<^verbatim>\<open>top_n \<le> 0\<close> on a built index does not fail.
  With \<^verbatim>\<open>top_n = 0\<close> it returns the empty string; with \<^verbatim>\<open>top_n < 0\<close> it returns
  the full ranking without its last \<open>|top_n|\<close> documents, as the slice \<^verbatim>\<open>[:top_n]\<close>
  selects them. The full ranking is what the query returns for \<^verbatim>\<open>top_n\<close> equal to
  the size of the Corpus.
\<close>

theorem query_nonpositive_top_n:
  assumes "built self" and "top_n \<le> 0"
  shows "\<exists>ranked. query self q (int (length (documents self)))
             = Inr (join [CHR 0x0A, CHR 0x0A] ranked)
           \<and> mset ranked = mset (documents self)
           \<and> query self q top_n
               = Inr (join [CHR 0x0A, CHR 0x0A]
                   (if top_n = 0 then [] else take (length ranked - nat (- top_n)) ranked))"
proof -
  let ?L = "rev (argsort (sims_of (documents self) q))"
  let ?ranked = "map (\<lambda>i. documents self ! i) ?L"
  have len: "length ?L = length (documents self)"
    by (simp add: length_argsort length_sims_of)
  have "slice_to (int (length (documents self))) ?L = ?L"
    by (simp add: slice_to_def length_argsort length_sims_of)
  then have all: "query self q (int (length (documents self)))
                    = Inr (join [CHR 0x0A, CHR 0x0A] ?ranked)"
    by (simp add: query_built[OF assms(1)])
  have perm: "mset ?ranked = mset (documents self)"
    by (rule mset_map_nth_perm) (simp add: mset_argsort length_sims_of)
  have "map (\<lambda>i. documents self ! i) (slice_to top_n ?L)
          = (if top_n = 0 then [] else take (length ?ranked - nat (- top_n)) ?ranked)"
    using assms(2) by (simp add: slice_to_def take_map)
  then have "query self q top_n
      = Inr (join [CHR 0x0A, CHR 0x0A]
          (if top_n = 0 then [] else take (length ?ranked - nat (- top_n)) ?ranked))"
    by (simp only: query_built[OF assms(1)])
  with all perm show ?thesis by blast
qed

theorem query_nonpositive_top_n_witness:
  "built example_index \<and> (- 1 :: int) \<le> 0
   \<and> (\<exists>ranked. query example_index ''omega'' (int (length (documents example_index)))
             = Inr (join [CHR 0x0A, CHR 0x0A] ranked)
           \<and> mset ranked = mset (documents example_index)
           \<and> query example_index ''omega'' (- 1)
               = Inr (join [CHR 0x0A, CHR 0x0A]
                   (if (- 1 :: int) = 0 then [] else take (length ranked - nat (- (- 1))) ranked)))"
proof -
  have neg: "(- 1 :: int) \<le> 0" by simp
  show ?thesis
    using example_index_built query_nonpositive_top_n[OF example_index_built neg, of "''omega''"]
    by simp
qed

theorem query_nonpositive_top_n_counterexample:
  "query example_index ''omega'' 0 = Inr []
   \<and> query example_index ''omega'' (- 1) = Inr ''beta alpha  ''"
  by (simp add: example_query_omega slice_to_def)

text \<open>
  C3, as amended: on a built index the query returns one string, the selected documents
  joined by a blank line. The selected documents are distinct members of the Corpus,
  each with its full text, in order of similarity, the most similar first; their number
  is what the slice \<^verbatim>\<open>[:top_n]\<close> keeps of the Corpus.
\<close>

theorem query_returns_joined_string:
  assumes "built self"
  shows "\<exists>sims idx. similarities self q = Inr sims
           \<and> query self q top_n
               = Inr (join [CHR 0x0A, CHR 0x0A] (map (\<lambda>i. documents self ! i) idx))
           \<and> distinct idx \<and> (\<forall>i \<in> set idx. i < length (documents self))
           \<and> sorted_wrt (\<lambda>i j. sims ! j \<le> sims ! i) idx
           \<and> length idx = (if 0 \<le> top_n then min (nat top_n) (length (documents self))
                            else length (documents self) - nat (- top_n))"
proof -
  let ?sims = "sims_of (documents self) q"
  let ?idx = "slice_to top_n (rev (argsort ?sims))"
  have "sorted_wrt (ranked_before ?sims) ?idx" by (rule top_indices_selection(1))
  then have "sorted_wrt (\<lambda>i j. ?sims ! j \<le> ?sims ! i) ?idx"
    by (rule sorted_wrt_mono_rel[rotated]) (auto simp: ranked_before_def)
  moreover have "distinct ?idx" by (rule top_indices_selection(2))
  moreover have "\<forall>i \<in> set ?idx. i < length (documents self)"
    using top_indices_selection(3)[of top_n ?sims] by (simp add: length_sims_of)
  moreover have "length ?idx = (if 0 \<le> top_n then min (nat top_n) (length (documents self))
                            else length (documents self) - nat (- top_n))"
    using top_indices_selection(5)[of top_n ?sims] by (simp add: length_sims_of)
  ultimately show ?thesis
    using similarities_built[OF assms] query_built[OF assms] by blast
qed

theorem query_returns_joined_string_witness:
  "built example_index
   \<and> (\<exists>sims idx. similarities example_index ''alpha'' = Inr sims
           \<and> query example_index ''alpha'' 2
               = Inr (join [CHR 0x0A, CHR 0x0A] (map (\<lambda>i. documents example_index ! i) idx))
           \<and> distinct idx \<and> (\<forall>i \<in> set idx. i < length (documents example_index))
           \<and> sorted_wrt (\<lambda>i j. sims ! j \<le> sims ! i) idx
           \<and> length idx = (if (0::int) \<le> 2 then min (nat 2) (length (documents example_index))
                            else length (documents example_index) - nat (- 2)))"
  using example_index_built
    query_returns_joined_string[OF example_index_built, of "''alpha''" 2]
  by simp

theorem query_returns_joined_string_counterexample:
  "query example_index ''omega'' 2 = Inr (''beta alpha  '' @ [CHR 0x0A, CHR 0x0A] @ ''alpha beta  '')
   \<and> ''beta alpha  '' @ [CHR 0x0A, CHR 0x0A] @ ''alpha beta  '' \<notin> set (documents example_index)"
  by (simp add: example_query_omega slice_to_def example_index_documents)


subsection \<open>The order of ties\<close>









subsection \<open>Zero vectors\<close>

lemma cosine_never_divides_by_zero: "cosine_similarity X Y \<noteq> Inl ZeroDivisionError"
  by (simp add: cosine_similarity_def normalize_unit)

lemma built_vocabulary:
  "built self \<Longrightarrow> fitted_vocabulary (vectorizer self) = Some (vocabulary_of (documents self))"
  by (simp add: built_iff fitted_def)

text \<open>
  C7: on a built index every query returns a result, and the similarity computation
  yields one similarity for each document. When no token of the query is in the
  vocabulary, every similarity is 0; the similarity to a document without tokens is 0.
  \<^verbatim>\<open>cosine_similarity\<close> never divides by zero, whatever its arguments.
\<close>

theorem zero_vector_similarity:
  assumes "built self"
  shows "\<exists>sims. similarities self q = Inr sims
           \<and> length sims = length (documents self)
           \<and> (\<exists>r. query self q top_n = Inr r)
           \<and> ((\<forall>vocab. fitted_vocabulary (vectorizer self) = Some vocab
                   \<longrightarrow> set (analyze q) \<inter> set vocab = {})
                \<longrightarrow> (\<forall>j < length sims. sims ! j = 0))
           \<and> (\<forall>j < length sims. analyze (documents self ! j) = [] \<longrightarrow> sims ! j = 0)
           \<and> cosine_similarity X Y \<noteq> Inl ZeroDivisionError"
proof -
  let ?docs = "documents self"
  let ?sims = "sims_of ?docs q"
  have oov: "\<forall>j < length ?sims. ?sims ! j = 0"
    if "\<forall>vocab. fitted_vocabulary (vectorizer self) = Some vocab
          \<longrightarrow> set (analyze q) \<inter> set vocab = {}"
  proof -
    from that have "set (analyze q) \<inter> set (vocabulary_of ?docs) = {}"
      by (simp add: built_vocabulary[OF assms])
    then have "sq_norm (doc_vector ?docs q) = 0" by (rule doc_vector_zero)
    then show ?thesis by (simp add: sims_of_zero)
  qed
  have empty: "\<forall>j < length ?sims. analyze (?docs ! j) = [] \<longrightarrow> ?sims ! j = 0"
  proof (intro allI impI)
    fix j
    assume j: "j < length ?sims" and e: "analyze (?docs ! j) = []"
    then have "sq_norm (doc_vector ?docs (?docs ! j)) = 0"
      by (intro doc_vector_zero) simp
    with j show "?sims ! j = 0"
      by (simp add: length_sims_of sims_of_nth dot_zero_right)
  qed
  show ?thesis
    using similarities_built[OF assms, of q] query_built[OF assms, of q top_n] oov empty
      cosine_never_divides_by_zero[of X Y]
    by (simp add: length_sims_of)
qed


theorem zero_vector_similarity_witness:
  "built example_index
   \<and> fitted_vocabulary (vectorizer example_index)
       = Some (vocabulary_of (documents example_index))
   \<and> set (analyze ''omega'') \<inter> set (vocabulary_of (documents example_index)) = {}
   \<and> similarities example_index ''omega'' = Inr [0, 0]
   \<and> (\<exists>r. query example_index ''omega'' 1 = Inr r)
   \<and> cosine_similarity [] [] \<noteq> Inl ZeroDivisionError"
proof -
  have voc: "fitted_vocabulary (vectorizer example_index)
       = Some (vocabulary_of (documents example_index))"
    by (rule built_vocabulary[OF example_index_built])
  have oov: "set (analyze ''omega'') \<inter> set (vocabulary_of (documents example_index)) = {}"
    by (simp add: set_vocabulary_of example_index_documents analyze_omega
        analyze_alpha_beta analyze_beta_alpha)
  from zero_vector_similarity[OF example_index_built, of "''omega''" 1 "[]" "[]"]
  obtain sims where sims: "similarities example_index ''omega'' = Inr sims"
    and len: "length sims = length (documents example_index)"
    and res: "\<exists>r. query example_index ''omega'' 1 = Inr r"
    and zero: "(\<forall>vocab. fitted_vocabulary (vectorizer example_index) = Some vocab
                   \<longrightarrow> set (analyze ''omega'') \<inter> set vocab = {})
                \<longrightarrow> (\<forall>j < length sims. sims ! j = 0)"
    and safe: "cosine_similarity [] [] \<noteq> Inl ZeroDivisionError"
    by blast
  from zero voc oov have all0: "\<forall>j < length sims. sims ! j = 0" by simp
  from len have "length sims = 2" by (simp add: example_index_documents)
  with all0 have "sims = [0, 0]"
    by (intro nth_equalityI) (auto simp: less_Suc_eq numeral_2_eq_2)
  with sims res safe voc oov example_index_built show ?thesis by simp
qed

subsection \<open>A document as its own query\<close>







subsection \<open>A build on no documents\<close>

lemma query_unfitted:
  assumes "fitted_idf (vectorizer self) = None"
  shows "isl (query self q top_n)"
  using assms
  by (simp add: query_def similarities_def transform_def split: option.splits)

text \<open>
  C4, as amended: \<^verbatim>\<open>setup\<close> on a source of zero records raises the \<^verbatim>\<open>ValueError\<close> of
  the vectoriser for an empty vocabulary, whatever the prior state. The matrix of the
  prior state is kept, but the documents are already replaced by the empty list, and a
  later query with \<^verbatim>\<open>top_n \<ge> 1\<close> raises.
\<close>

theorem empty_build_fails:
  "fst (rag_setup self (Loaded (JArr [])))
     = Some (ValueError ''empty vocabulary; perhaps the documents only contain stop words'')
   \<and> documents (snd (rag_setup self (Loaded (JArr [])))) = []
   \<and> tfidf_matrix (snd (rag_setup self (Loaded (JArr [])))) = tfidf_matrix self
   \<and> (1 \<le> top_n \<longrightarrow> isl (query (snd (rag_setup self (Loaded (JArr [])))) q top_n))"
  by (simp add: setup_empty query_unfitted)

theorem empty_build_fails_witness:
  "fst (rag_setup example_index (Loaded (JArr [])))
     = Some (ValueError ''empty vocabulary; perhaps the documents only contain stop words'')
   \<and> documents (snd (rag_setup example_index (Loaded (JArr [])))) = []
   \<and> tfidf_matrix (snd (rag_setup example_index (Loaded (JArr [])))) = tfidf_matrix example_index
   \<and> (1 :: int) \<le> 1
   \<and> isl (query (snd (rag_setup example_index (Loaded (JArr [])))) ''omega'' 1)"
  using empty_build_fails[of example_index 1 "''omega''"] by simp

theorem empty_build_fails_counterexample:
  "built example_index
   \<and> query example_index ''omega'' 1 = Inr ''beta alpha  ''
   \<and> documents (snd (rag_setup example_index (Loaded (JArr [])))) \<noteq> documents example_index
   \<and> isl (query (snd (rag_setup example_index (Loaded (JArr [])))) ''omega'' 1)"
  by (simp add: example_index_built example_query_omega slice_to_def setup_empty
      example_index_documents query_unfitted)

subsection \<open>The document of a record\<close>







end
